theory Spec2Isabelle
  imports Main
begin

section \<open>The environment of the command-line tool\<close>

text \<open>
  The program of \<^verbatim>\<open>src/cli.ts\<close> is sequential glue around the file system, a
  subprocess call and a prompt library. The model threads an explicit \<open>world\<close> through
  every call. The world holds the entries of the working directory, the bundled template
  resources, which targets can be written, the behaviour of subprocesses, and the trace of
  every observable call made so far (console output, prompt-library output, file-system
  calls and subprocess calls) in chronological order.

  File contents are text. The tool reads with the \<^verbatim>\<open>"utf8"\<close> encoding and writes
  strings, so \<open>File c\<close> stands for a file whose UTF-8 decoding is the text \<open>c\<close>, and the
  template map gives the decoded text of each template that can be read. Bytes are not
  modelled: a file that is valid UTF-8 is determined by its text, whereas decoding
  replaces bytes that are not, so that what the tool writes back after reading such a
  file is the same text but not the same bytes.
\<close>

datatype node = File string | Dir

text \<open>
  \<open>Cwd name\<close> is \<^verbatim>\<open>path.join(process.cwd(), name)\<close> (also what a relative name given
  to \<^verbatim>\<open>fs\<close> resolves to); \<open>Template name\<close> is
  \<^verbatim>\<open>path.join(__dirname, "..", "templates", name)\<close>.
\<close>

datatype path = Cwd string | Template string

datatype error =
    ENOENT path
  | EISDIR path
  | EACCES path
  | SyntaxError
  | TypeError
  | ExecFailed string

datatype event =
    ConsoleClear
  | Intro string
  | LogInfo string
  | LogWarn string
  | LogError string
  | CancelMsg string
  | SpinnerStart string
  | SpinnerStop string
  | Outro string
  | ConsoleLog string
  | ConsoleError error
  | FsExists path
  | FsRead path
  | FsWrite path string
  | ExecSync string

record world =
  cwd :: "string \<rightharpoonup> node"
  templates :: "string \<rightharpoonup> string"
  writable :: "string \<Rightarrow> bool"
  exec :: "string \<Rightarrow> (string \<rightharpoonup> node) \<Rightarrow> bool \<times> (string \<rightharpoonup> node)"
  trace :: "event list"

definition emit :: "event \<Rightarrow> world \<Rightarrow> world" where
  "emit e w = w\<lparr>trace := trace w @ [e]\<rparr>"

text \<open>\<^verbatim>\<open>fs.existsSync\<close>: true for any entry, file or directory; it never throws.\<close>

definition existsSync :: "string \<Rightarrow> world \<Rightarrow> bool \<times> world" where
  "existsSync name w = (cwd w name \<noteq> None, emit (FsExists (Cwd name)) w)"

text \<open>\<^verbatim>\<open>fs.readFileSync(p, "utf8")\<close>: throws when the entry is missing or is a directory.\<close>

definition readFileSync :: "path \<Rightarrow> world \<Rightarrow> (error + string) \<times> world" where
  "readFileSync p w =
     (let w' = emit (FsRead p) w in
      case p of
        Cwd name \<Rightarrow>
          (case cwd w name of
             None \<Rightarrow> (Inl (ENOENT p), w')
           | Some Dir \<Rightarrow> (Inl (EISDIR p), w')
           | Some (File c) \<Rightarrow> (Inr c, w'))
      | Template name \<Rightarrow>
          (case templates w name of
             None \<Rightarrow> (Inl (ENOENT p), w')
           | Some c \<Rightarrow> (Inr c, w')))"

text \<open>
  \<^verbatim>\<open>fs.writeFileSync(path, content)\<close> on a working-directory target: creates or
  replaces the file. It throws, leaving the directory as it was, when the target is a
  directory or cannot be opened for writing.
\<close>

definition writeFileSync :: "string \<Rightarrow> string \<Rightarrow> world \<Rightarrow> (error + unit) \<times> world" where
  "writeFileSync name c w =
     (let w' = emit (FsWrite (Cwd name) c) w in
      if cwd w name = Some Dir then (Inl (EISDIR (Cwd name)), w')
      else if \<not> writable w name then (Inl (EACCES (Cwd name)), w')
      else (Inr (), w'\<lparr>cwd := (cwd w)(name \<mapsto> File c)\<rparr>))"

text \<open>
  \<^verbatim>\<open>child_process.execSync(cmd)\<close>: the subprocess may change the working directory's
  entries; a non-zero exit status or a spawn error is thrown. The returned output buffer is
  never used by the program.
\<close>

definition execSync :: "string \<Rightarrow> world \<Rightarrow> (error + unit) \<times> world" where
  "execSync cmd w =
     (let (ok, d) = exec w cmd (cwd w);
          w' = (emit (ExecSync cmd) w)\<lparr>cwd := d\<rparr>
      in (if ok then Inr () else Inl (ExecFailed cmd), w'))"

section \<open>Constants\<close>

definition DEPENDENCIES :: "string list" where
  "DEPENDENCIES =
     [''@eslint/js@^9.36.0'',
      ''@ianvs/prettier-plugin-sort-imports@^4.5.1'',
      ''eslint@^9.0.0'',
      ''eslint-config-prettier@^10.1.5'',
      ''eslint-plugin-import@^2.32.0'',
      ''eslint-plugin-jsdoc@^60.7.1'',
      ''eslint-plugin-n@^17.23.1'',
      ''globals@^15.0.0'',
      ''prettier@^3.0.0'',
      ''typescript-eslint@^8.45.0'']"

datatype PackageManager = Bun | Pnpm | Yarn | Npm

text \<open>The string each tag stands for in the source.\<close>

fun pm_tag :: "PackageManager \<Rightarrow> string" where
  "pm_tag Bun = ''bun''"
| "pm_tag Pnpm = ''pnpm''"
| "pm_tag Yarn = ''yarn''"
| "pm_tag Npm = ''npm''"

section \<open>Package-manager detection\<close>

definition detectPackageManager :: "world \<Rightarrow> PackageManager \<times> world" where
  "detectPackageManager w =
     (let (b1, w1) = existsSync ''bun.lockb'' w in
      if b1 then (Bun, w1) else
      let (b2, w2) = existsSync ''pnpm-lock.yaml'' w1 in
      if b2 then (Pnpm, w2) else
      let (b3, w3) = existsSync ''yarn.lock'' w2 in
      if b3 then (Yarn, w3) else
      let (b4, w4) = existsSync ''package-lock.json'' w3 in
      if b4 then (Npm, w4) else
      (case execSync ''bun --version'' w4 of
         (Inr _, w5) \<Rightarrow> (Bun, w5)
       | (Inl _, w5) \<Rightarrow> (Npm, w5)))"

section \<open>Install command\<close>

text \<open>\<^verbatim>\<open>Array.prototype.join\<close> on an array of strings.\<close>

fun join :: "string \<Rightarrow> string list \<Rightarrow> string" where
  "join sep [] = []"
| "join sep [x] = x"
| "join sep (x # y # ys) = x @ sep @ join sep (y # ys)"

definition getInstallCommand :: "PackageManager \<Rightarrow> string" where
  "getInstallCommand pm =
     (let deps = join '' '' DEPENDENCIES in
      case pm of
        Bun \<Rightarrow> ''bun add -d '' @ deps
      | Pnpm \<Rightarrow> ''pnpm add -D '' @ deps
      | Yarn \<Rightarrow> ''yarn add -D '' @ deps
      | _ \<Rightarrow> ''npm install --save-dev '' @ deps)"

section \<open>Template materialisation\<close>

definition copyTemplate :: "string \<Rightarrow> world \<Rightarrow> (error + bool) \<times> world" where
  "copyTemplate filename w =
     (let (present, w1) = existsSync filename w in
      if present
      then (Inr False, emit (LogWarn (filename @ '' already exists, skipping'')) w1)
      else
        (case readFileSync (Template filename) w1 of
           (Inl e, w2) \<Rightarrow> (Inl e, w2)
         | (Inr content, w2) \<Rightarrow>
             (case writeFileSync filename content w2 of
                (Inl e, w3) \<Rightarrow> (Inl e, w3)
              | (Inr _, w3) \<Rightarrow> (Inr True, w3))))"

section \<open>JSON values and object properties\<close>

text \<open>
  A value as \<^verbatim>\<open>JSON.parse\<close> returns it. The properties of an object are listed in
  the order in which JavaScript enumerates them. Numbers are IEEE doubles in the program;
  nothing here looks inside one, so their type is a parameter.
\<close>

datatype 'n json =
    JNull
  | JBool bool
  | JNumber 'n
  | JString string
  | JArray "'n json list"
  | JObject "(string \<times> 'n json) list"

text \<open>
  The two built-ins the program calls: \<^verbatim>\<open>JSON.parse(text)\<close>, with \<open>None\<close> for the
  \<^verbatim>\<open>SyntaxError\<close> it throws on invalid text, and
  \<^verbatim>\<open>JSON.stringify(value, null, 2)\<close>. They belong to the language, not to this
  repository, and are taken as parameters.
\<close>

record 'n JSON =
  parse :: "string \<Rightarrow> 'n json option"
  stringify :: "'n json \<Rightarrow> string"

definition SCRIPTS :: "(string \<times> string) list" where
  "SCRIPTS =
     [(''lint'', ''eslint .''),
      (''lint:fix'', ''eslint . --fix''),
      (''format'', ''prettier --write .''),
      (''format:check'', ''prettier --check .'')]"

definition ENGINES :: "(string \<times> string) list" where
  "ENGINES = [(''node'', ''>=23.11.0'')]"

text \<open>
  Defining a property on an ordinary object: an existing property keeps its place and
  takes the new value, a new one is added last.
\<close>

fun set_property :: "string \<Rightarrow> 'v \<Rightarrow> (string \<times> 'v) list \<Rightarrow> (string \<times> 'v) list" where
  "set_property k v [] = [(k, v)]"
| "set_property k v ((k', v') # rest) =
     (if k' = k then (k, v) # rest else (k', v') # set_property k v rest)"

text \<open>Decimal rendering of an array index, as in the property names of arrays and strings.\<close>

fun decimal :: "nat \<Rightarrow> string" where
  "decimal n =
     (if n < 10 then [char_of (48 + n)]
      else decimal (n div 10) @ [char_of (48 + n mod 10)])"

text \<open>
  What a spread element \<^verbatim>\<open>...v\<close> of an object literal copies: nothing for
  \<^verbatim>\<open>undefined\<close> (\<open>None\<close>), \<^verbatim>\<open>null\<close>, booleans and numbers; the own
  properties of an object; the indexed elements of an array; the indexed characters of a
  string.
\<close>

fun own_properties :: "'n json option \<Rightarrow> (string \<times> 'n json) list" where
  "own_properties None = []"
| "own_properties (Some (JObject kvs)) = kvs"
| "own_properties (Some (JArray xs)) = zip (map decimal [0..<length xs]) xs"
| "own_properties (Some (JString s)) =
     zip (map decimal [0..<length s]) (map (\<lambda>c. JString [c]) s)"
| "own_properties (Some _) = []"

text \<open>Copying properties one by one into the object under construction.\<close>

definition spread :: "(string \<times> 'v) list \<Rightarrow> (string \<times> 'v) list \<Rightarrow> (string \<times> 'v) list" where
  "spread props obj = fold (\<lambda>(k, v). set_property k v) props obj"

text \<open>The object literal \<^verbatim>\<open>{ ...old, ...CONSTS }\<close>.\<close>

definition merged :: "'n json option \<Rightarrow> (string \<times> string) list \<Rightarrow> 'n json" where
  "merged old fixed =
     JObject (spread (map (\<lambda>(k, v). (k, JString v)) fixed) (spread (own_properties old) []))"

text \<open>
  Reading \<^verbatim>\<open>packageJson.scripts\<close> or \<^verbatim>\<open>packageJson.engines\<close>. Neither name is
  defined by a built-in prototype, so only an object's own property can answer; reading
  from \<^verbatim>\<open>null\<close> throws.
\<close>

fun get_property :: "'n json \<Rightarrow> string \<Rightarrow> error + 'n json option" where
  "get_property JNull k = Inl TypeError"
| "get_property (JObject kvs) k = Inr (map_of kvs k)"
| "get_property _ k = Inr None"

text \<open>
  Assigning \<^verbatim>\<open>packageJson.scripts = v\<close> (or \<^verbatim>\<open>engines\<close>) in module code, which is
  strict: on an object the property is set; on an array it is set too, but as it is not
  an element \<^verbatim>\<open>JSON.stringify\<close> will not see it; on a primitive it throws.
\<close>

fun assign_property :: "'n json \<Rightarrow> string \<Rightarrow> 'n json \<Rightarrow> error + 'n json" where
  "assign_property (JObject kvs) k v = Inr (JObject (set_property k v kvs))"
| "assign_property (JArray xs) k v = Inr (JArray xs)"
| "assign_property _ k v = Inl TypeError"

text \<open>
  The statement \<^verbatim>\<open>if (flag) { packageJson.key = { ...packageJson.key, ...CONSTS }; }\<close>
\<close>

definition merge_key ::
    "bool \<Rightarrow> string \<Rightarrow> (string \<times> string) list \<Rightarrow> 'n json \<Rightarrow> error + 'n json" where
  "merge_key flag key fixed packageJson =
     (if flag
      then (case get_property packageJson key of
              Inl e \<Rightarrow> Inl e
            | Inr old \<Rightarrow> assign_property packageJson key (merged old fixed))
      else Inr packageJson)"

section \<open>Manifest update\<close>

definition updatePackageJson ::
    "'n JSON \<Rightarrow> bool \<Rightarrow> bool \<Rightarrow> world \<Rightarrow> (error + unit) \<times> world" where
  "updatePackageJson J addScripts addEngines w =
     (let (present, w1) = existsSync ''package.json'' w in
      if \<not> present
      then (Inr (), emit (LogWarn ''No package.json found, skipping updates'') w1)
      else
        (case readFileSync (Cwd ''package.json'') w1 of
           (Inl e, w2) \<Rightarrow> (Inl e, w2)
         | (Inr text, w2) \<Rightarrow>
             (case parse J text of
                None \<Rightarrow> (Inl SyntaxError, w2)
              | Some packageJson \<Rightarrow>
                  (case merge_key addScripts ''scripts'' SCRIPTS packageJson of
                     Inl e \<Rightarrow> (Inl e, w2)
                   | Inr withScripts \<Rightarrow>
                       (case merge_key addEngines ''engines'' ENGINES withScripts of
                          Inl e \<Rightarrow> (Inl e, w2)
                        | Inr withEngines \<Rightarrow>
                            writeFileSync ''package.json''
                              (stringify J withEngines @ [CHR 0x0A]) w2)))))"

section \<open>The orchestrator\<close>

text \<open>
  The answers of the four prompts are inputs. A prompt is either answered or cancelled
  (\<^verbatim>\<open>p.isCancel\<close>); what the prompt library draws is not part of the trace.
\<close>

datatype 'a answer = Cancelled | Answer 'a

record prompts =
  files :: "string list answer"
  updateScripts :: "bool answer"
  updateEngines :: "bool answer"
  installDeps :: "bool answer"

text \<open>
  How a call of \<^verbatim>\<open>main()\<close> ends: its promise resolves, its promise rejects with an
  error nobody caught inside, or \<^verbatim>\<open>process.exit(code)\<close> ended the process.
\<close>

datatype outcome = Resolved | Rejected error | Exited nat

text \<open>One \<^verbatim>\<open>if (files.includes(key)) { copyTemplate(filename); }\<close>; the result is dropped.\<close>

definition copy_if :: "bool \<Rightarrow> string \<Rightarrow> world \<Rightarrow> (error + unit) \<times> world" where
  "copy_if selected filename w =
     (if selected
      then (case copyTemplate filename w of
              (Inl e, w') \<Rightarrow> (Inl e, w')
            | (Inr _, w') \<Rightarrow> (Inr (), w'))
      else (Inr (), w))"

text \<open>Lines 174 to 188: the three copies between the spinner's start and stop.\<close>

definition write_files :: "string list \<Rightarrow> world \<Rightarrow> (error + unit) \<times> world" where
  "write_files selected w =
     (case copy_if (''eslint'' \<in> set selected) ''eslint.config.js''
             (emit (SpinnerStart ''Creating configuration files'') w) of
        (Inl e, w1) \<Rightarrow> (Inl e, w1)
      | (Inr _, w1) \<Rightarrow>
          (case copy_if (''prettier'' \<in> set selected) ''prettier.config.js'' w1 of
             (Inl e, w2) \<Rightarrow> (Inl e, w2)
           | (Inr _, w2) \<Rightarrow>
               (case copy_if (''prettierignore'' \<in> set selected) ''.prettierignore'' w2 of
                  (Inl e, w3) \<Rightarrow> (Inl e, w3)
                | (Inr _, w3) \<Rightarrow>
                    (Inr (), emit (SpinnerStop ''Configuration files created'') w3))))"

text \<open>Lines 190 to 199: the manifest update inside its \<^verbatim>\<open>try\<close>/\<^verbatim>\<open>catch\<close>.\<close>

definition update_manifest :: "'n JSON \<Rightarrow> bool \<Rightarrow> bool \<Rightarrow> world \<Rightarrow> world" where
  "update_manifest J addScripts addEngines w =
     (if addScripts \<or> addEngines
      then (case updatePackageJson J addScripts addEngines
                   (emit (SpinnerStart ''Updating package.json'') w) of
              (Inr _, w') \<Rightarrow> emit (SpinnerStop ''package.json updated'') w'
            | (Inl _, w') \<Rightarrow>
                emit (LogError ''Could not update package.json automatically'')
                  (emit (SpinnerStop ''Failed to update package.json'') w'))
      else w)"

text \<open>
  Lines 201 to 215: the installation inside its \<^verbatim>\<open>try\<close>/\<^verbatim>\<open>catch\<close>. The result
  is \<open>Some code\<close> when the handler called \<^verbatim>\<open>process.exit(code)\<close>.
\<close>

definition install_dependencies :: "PackageManager \<Rightarrow> bool \<Rightarrow> world \<Rightarrow> nat option \<times> world" where
  "install_dependencies pm selected w =
     (if selected
      then (case execSync (getInstallCommand pm)
                   (emit (SpinnerStart ''Installing dependencies'') w) of
              (Inr _, w') \<Rightarrow> (None, emit (SpinnerStop ''Dependencies installed'') w')
            | (Inl _, w') \<Rightarrow>
                (Some 1,
                 emit (LogInfo (''You can install them manually with:'' @ [CHR 0x0A] @ ''  ''
                                 @ getInstallCommand pm))
                   (emit (LogError ''Failed to install dependencies'')
                      (emit (SpinnerStop ''Failed to install dependencies'') w'))))
      else (None, w))"

text \<open>Lines 217 to 225: the closing message and the list of commands.\<close>

definition finish :: "PackageManager \<Rightarrow> bool \<Rightarrow> bool \<Rightarrow> world \<Rightarrow> world" where
  "finish pm installed addScripts w =
     (let w1 = emit (Outro ''Setup complete'') w in
      if installed \<and> addScripts
      then fold emit
             [ConsoleLog ([CHR 0x0A] @ ''Available commands:''),
              ConsoleLog (''  '' @ pm_tag pm @ '' run lint          Check for linting errors''),
              ConsoleLog (''  '' @ pm_tag pm @ '' run lint:fix      Fix linting errors''),
              ConsoleLog (''  '' @ pm_tag pm @ '' run format        Format code with Prettier''),
              ConsoleLog (''  '' @ pm_tag pm @ '' run format:check  Check formatting'' @ [CHR 0x0A])]
             w1
      else w1)"

text \<open>Lines 172 to 225: everything after the last prompt.\<close>

definition run_steps ::
    "'n JSON \<Rightarrow> PackageManager \<Rightarrow> string list \<Rightarrow> bool \<Rightarrow> bool \<Rightarrow> bool \<Rightarrow> world
       \<Rightarrow> outcome \<times> world" where
  "run_steps J pm selected addScripts addEngines install w =
     (case write_files selected w of
        (Inl e, w1) \<Rightarrow> (Rejected e, w1)
      | (Inr _, w1) \<Rightarrow>
          (case install_dependencies pm install (update_manifest J addScripts addEngines w1) of
             (Some code, w2) \<Rightarrow> (Exited code, w2)
           | (None, w2) \<Rightarrow> (Resolved, finish pm install addScripts w2)))"

text \<open>Lines 119 to 124: the greeting, the detection and its report.\<close>

definition greet :: "world \<Rightarrow> PackageManager \<times> world" where
  "greet w =
     (let (pm, w1) =
            detectPackageManager
              (emit (Intro ''Stern ESLint and Prettier Configuration'') (emit ConsoleClear w))
      in (pm, emit (LogInfo (''Detected package manager: '' @ pm_tag pm)) w1))"

definition main :: "'n JSON \<Rightarrow> prompts \<Rightarrow> world \<Rightarrow> outcome \<times> world" where
  "main J answers w =
     (let (pm, w1) = greet w;
          cancel = (Exited 0, emit (CancelMsg ''Operation cancelled'') w1)
      in case files answers of
           Cancelled \<Rightarrow> cancel
         | Answer selected \<Rightarrow>
             (case updateScripts answers of
                Cancelled \<Rightarrow> cancel
              | Answer addScripts \<Rightarrow>
                  (case updateEngines answers of
                     Cancelled \<Rightarrow> cancel
                   | Answer addEngines \<Rightarrow>
                       (case installDeps answers of
                          Cancelled \<Rightarrow> cancel
                        | Answer install \<Rightarrow>
                            run_steps J pm selected addScripts addEngines install w1))))"

text \<open>
  Lines 228 to 232: the process as a whole, with its exit status. A promise that resolves
  lets the process end with status 0; a rejection reaches the handler, which prints and
  exits with status 1.
\<close>

definition program :: "'n JSON \<Rightarrow> prompts \<Rightarrow> world \<Rightarrow> nat \<times> world" where
  "program J answers w =
     (case main J answers w of
        (Resolved, w') \<Rightarrow> (0, w')
      | (Exited code, w') \<Rightarrow> (code, w')
      | (Rejected e, w') \<Rightarrow>
          (1, emit (ConsoleError e) (emit (LogError ''An error occurred'') w')))"

section \<open>Observing a command line\<close>

text \<open>
  Splitting a string at every occurrence of a character, as \<^verbatim>\<open>String.prototype.split\<close>
  does: two adjacent separators give an empty piece. It is used only to state what the
  install command looks like.
\<close>

fun split_on :: "char \<Rightarrow> string \<Rightarrow> string list" where
  "split_on c [] = [[]]"
| "split_on c (x # xs) =
     (if x = c then [] # split_on c xs
      else (case split_on c xs of [] \<Rightarrow> [[x]] | t # ts \<Rightarrow> (x # t) # ts))"

section \<open>Example environments\<close>

text \<open>
  The manifest of the specification's example, and what the program writes back for it:
  once with the scripts added, once with scripts and engines added.
\<close>

definition manifest_text :: string where
  \<open>manifest_text = ''{"name":"x","scripts":{"build":"tsc"}}''\<close>

definition manifest_value :: "unit json" where
  "manifest_value =
     JObject [(''name'', JString ''x''), (''scripts'', JObject [(''build'', JString ''tsc'')])]"

definition scripts_value :: "unit json" where
  "scripts_value =
     JObject [(''build'', JString ''tsc''),
              (''lint'', JString ''eslint .''),
              (''lint:fix'', JString ''eslint . --fix''),
              (''format'', JString ''prettier --write .''),
              (''format:check'', JString ''prettier --check .'')]"

definition manifest_with_scripts :: "unit json" where
  "manifest_with_scripts = JObject [(''name'', JString ''x''), (''scripts'', scripts_value)]"

definition manifest_with_both :: "unit json" where
  "manifest_with_both =
     JObject [(''name'', JString ''x''), (''scripts'', scripts_value),
              (''engines'', JObject [(''node'', JString ''>=23.11.0'')])]"

definition scripts_text :: string where
  \<open>scripts_text =
     ''  "scripts": {'' @ [CHR 0x0A] @
     ''    "build": "tsc",'' @ [CHR 0x0A] @
     ''    "lint": "eslint .",'' @ [CHR 0x0A] @
     ''    "lint:fix": "eslint . --fix",'' @ [CHR 0x0A] @
     ''    "format": "prettier --write .",'' @ [CHR 0x0A] @
     ''    "format:check": "prettier --check ."'' @ [CHR 0x0A] @
     ''  }''\<close>

definition text_with_scripts :: string where
  \<open>text_with_scripts =
     ''{'' @ [CHR 0x0A] @
     ''  "name": "x",'' @ [CHR 0x0A] @
     scripts_text @ [CHR 0x0A] @
     ''}''\<close>

definition text_with_both :: string where
  \<open>text_with_both =
     ''{'' @ [CHR 0x0A] @
     ''  "name": "x",'' @ [CHR 0x0A] @
     scripts_text @ '','' @ [CHR 0x0A] @
     ''  "engines": {'' @ [CHR 0x0A] @
     ''    "node": ">=23.11.0"'' @ [CHR 0x0A] @
     ''  }'' @ [CHR 0x0A] @
     ''}''\<close>

text \<open>
  The two built-ins at the texts and values of the examples: the example manifest parses,
  every other text here stands for invalid JSON.
\<close>

definition example_JSON :: "unit JSON" where
  "example_JSON =
     \<lparr>parse = (\<lambda>text. if text = manifest_text then Some manifest_value else None),
      stringify = (\<lambda>value.
        if value = manifest_with_scripts then text_with_scripts
        else if value = manifest_with_both then text_with_both
        else ''null'')\<rparr>"

definition bundled :: "string \<rightharpoonup> string" where
  "bundled =
     [''eslint.config.js'' \<mapsto> ''export default [];'',
      ''prettier.config.js'' \<mapsto> ''export default {};'',
      ''.prettierignore'' \<mapsto> ''node_modules'']"

text \<open>An empty directory on a machine without bun, where every subprocess fails.\<close>

definition empty_project :: world where
  "empty_project =
     \<lparr>cwd = Map.empty,
      templates = bundled,
      writable = (\<lambda>name. True),
      exec = (\<lambda>cmd dir. (False, dir)),
      trace = []\<rparr>"

text \<open>A yarn project holding the example manifest; subprocesses succeed.\<close>

definition yarn_project :: world where
  "yarn_project =
     empty_project
       \<lparr>cwd := [''package.json'' \<mapsto> File manifest_text, ''yarn.lock'' \<mapsto> File []],
        exec := (\<lambda>cmd dir. (True, dir))\<rparr>"

text \<open>A directory whose manifest is not valid JSON.\<close>

definition broken_project :: world where
  "broken_project = empty_project\<lparr>cwd := [''package.json'' \<mapsto> File ''{ name: ''] \<rparr>"

text \<open>A distribution that was packaged without the ESLint template.\<close>

definition incomplete_package :: world where
  "incomplete_package =
     empty_project
       \<lparr>templates := [''prettier.config.js'' \<mapsto> ''export default {};'',
                      ''.prettierignore'' \<mapsto> ''node_modules'']\<rparr>"

text \<open>A project directory in which nothing can be written.\<close>

definition readonly_project :: world where
  "readonly_project =
     empty_project
       \<lparr>cwd := [''package.json'' \<mapsto> File manifest_text], writable := (\<lambda>name. False)\<rparr>"

definition all_confirmed :: prompts where
  "all_confirmed =
     \<lparr>files = Answer [''eslint'', ''prettier'', ''prettierignore''],
      updateScripts = Answer True,
      updateEngines = Answer True,
      installDeps = Answer True\<rparr>"

section \<open>Package-manager detection: the lockfile chain\<close>

text \<open>
  Claim C1. For every state of the working directory, \<open>detectPackageManager\<close> answers by
  the first match of an ordered chain: \<open>bun\<close> if \<^verbatim>\<open>bun.lockb\<close> exists, else \<open>pnpm\<close> if
  \<^verbatim>\<open>pnpm-lock.yaml\<close> exists, else \<open>yarn\<close> if \<^verbatim>\<open>yarn.lock\<close> exists, else \<open>npm\<close> if
  \<^verbatim>\<open>package-lock.json\<close> exists, else \<open>bun\<close> if the probe \<^verbatim>\<open>bun --version\<close>
  succeeds, else \<open>npm\<close>. It is a total function (the probe's failure is caught), and its
  answer is one of the four tags.
\<close>

theorem detectPackageManager_chain:
  "fst (detectPackageManager w) =
     (if cwd w ''bun.lockb'' \<noteq> None then Bun
      else if cwd w ''pnpm-lock.yaml'' \<noteq> None then Pnpm
      else if cwd w ''yarn.lock'' \<noteq> None then Yarn
      else if cwd w ''package-lock.json'' \<noteq> None then Npm
      else if fst (exec w ''bun --version'' (cwd w)) then Bun
      else Npm)
   \<and> pm_tag (fst (detectPackageManager w)) \<in> {''bun'', ''pnpm'', ''yarn'', ''npm''}"
proof
  show "fst (detectPackageManager w) =
     (if cwd w ''bun.lockb'' \<noteq> None then Bun
      else if cwd w ''pnpm-lock.yaml'' \<noteq> None then Pnpm
      else if cwd w ''yarn.lock'' \<noteq> None then Yarn
      else if cwd w ''package-lock.json'' \<noteq> None then Npm
      else if fst (exec w ''bun --version'' (cwd w)) then Bun
      else Npm)"
    by (simp add: detectPackageManager_def existsSync_def execSync_def emit_def Let_def
        split: prod.splits)
  show "pm_tag (fst (detectPackageManager w)) \<in> {''bun'', ''pnpm'', ''yarn'', ''npm''}"
    by (cases "fst (detectPackageManager w)") simp_all
qed

theorem detectPackageManager_chain_witness:
  "fst (detectPackageManager yarn_project) = Yarn
   \<and> fst (detectPackageManager empty_project) = Npm
   \<and> fst (detectPackageManager (empty_project\<lparr>exec := (\<lambda>cmd dir. (True, dir))\<rparr>)) = Bun"
  using detectPackageManager_chain [of yarn_project]
    detectPackageManager_chain [of empty_project]
    detectPackageManager_chain [of "empty_project\<lparr>exec := (\<lambda>cmd dir. (True, dir))\<rparr>"]
  by (simp add: yarn_project_def empty_project_def)

section \<open>The install command\<close>

text \<open>
  Claim C2. For every package-manager tag, \<open>getInstallCommand\<close> is the prefix of that tag
  (\<^verbatim>\<open>bun add -d\<close>, \<^verbatim>\<open>pnpm add -D\<close>, \<^verbatim>\<open>yarn add -D\<close>, \<^verbatim>\<open>npm install --save-dev\<close>)
  followed by the ten dependencies, each written \<open>name@range\<close>, in the order of their
  declaration and separated by single spaces: splitting the command at spaces gives the
  words of the prefix and then exactly the declared tokens, which are pairwise distinct, so
  each occurs once. The function is total and depends on the tag only.
\<close>

theorem getInstallCommand_format:
  "getInstallCommand pm =
     (case pm of
        Bun \<Rightarrow> ''bun add -d''
      | Pnpm \<Rightarrow> ''pnpm add -D''
      | Yarn \<Rightarrow> ''yarn add -D''
      | Npm \<Rightarrow> ''npm install --save-dev'')
     @ '' '' @
     join '' '' (map (\<lambda>(name, range). name @ ''@'' @ range)
       [(''@eslint/js'', ''^9.36.0''),
        (''@ianvs/prettier-plugin-sort-imports'', ''^4.5.1''),
        (''eslint'', ''^9.0.0''),
        (''eslint-config-prettier'', ''^10.1.5''),
        (''eslint-plugin-import'', ''^2.32.0''),
        (''eslint-plugin-jsdoc'', ''^60.7.1''),
        (''eslint-plugin-n'', ''^17.23.1''),
        (''globals'', ''^15.0.0''),
        (''prettier'', ''^3.0.0''),
        (''typescript-eslint'', ''^8.45.0'')])
   \<and> split_on CHR '' '' (getInstallCommand pm) =
     (case pm of
        Bun \<Rightarrow> [''bun'', ''add'', ''-d'']
      | Pnpm \<Rightarrow> [''pnpm'', ''add'', ''-D'']
      | Yarn \<Rightarrow> [''yarn'', ''add'', ''-D'']
      | Npm \<Rightarrow> [''npm'', ''install'', ''--save-dev''])
     @ DEPENDENCIES
   \<and> distinct DEPENDENCIES"
  by (cases pm) (simp_all add: getInstallCommand_def DEPENDENCIES_def)

section \<open>Template materialisation: create, skip or throw\<close>

text \<open>
  Claim C3 says that whenever the target does not exist, \<open>copyTemplate\<close> creates it and
  returns true. In a distribution that lacks the ESLint template the target
  \<^verbatim>\<open>eslint.config.js\<close> is absent from the empty working directory, yet the call throws
  at the read (line 81): it does not return, and no file is created.
\<close>

theorem copyTemplate_throws_without_template:
  "cwd incomplete_package ''eslint.config.js'' = None
   \<and> copyTemplate ''eslint.config.js'' incomplete_package =
       (Inl (ENOENT (Template ''eslint.config.js'')),
        incomplete_package
          \<lparr>trace := [FsExists (Cwd ''eslint.config.js''),
                     FsRead (Template ''eslint.config.js'')]\<rparr>)
   \<and> cwd (snd (copyTemplate ''eslint.config.js'' incomplete_package)) ''eslint.config.js'' = None"
  by (simp add: copyTemplate_def existsSync_def readFileSync_def emit_def
      incomplete_package_def empty_project_def)

text \<open>
  Claim C3, as the program has it. For a template file name, when nothing exists at the
  target in the working directory: if the bundled template can be read and the target can
  be written, \<open>copyTemplate\<close> creates the target holding exactly the text read from the
  bundled template and returns true, the directory being otherwise unchanged; if the
  bundled template cannot be read, it throws after the read, with no write attempted and
  nothing created; if the target cannot be written, it throws at the write and nothing is
  created. When the target exists, \<open>copyTemplate\<close> returns false after a warning, with the
  directory untouched and no write attempted. There is no path that overwrites: whatever
  the result, every entry that existed before the call is the same after it.
\<close>

theorem copyTemplate_creates_or_skips:
  "(cwd w filename = None \<and> templates w filename = Some content \<and> writable w filename \<longrightarrow>
      copyTemplate filename w =
        (Inr True,
         w\<lparr>cwd := (cwd w)(filename \<mapsto> File content),
           trace := trace w @ [FsExists (Cwd filename), FsRead (Template filename),
                               FsWrite (Cwd filename) content]\<rparr>))
   \<and> (cwd w filename = None \<and> templates w filename = None \<longrightarrow>
      copyTemplate filename w =
        (Inl (ENOENT (Template filename)),
         w\<lparr>trace := trace w @ [FsExists (Cwd filename), FsRead (Template filename)]\<rparr>))
   \<and> (cwd w filename = None \<and> templates w filename = Some content \<and> \<not> writable w filename \<longrightarrow>
      copyTemplate filename w =
        (Inl (EACCES (Cwd filename)),
         w\<lparr>trace := trace w @ [FsExists (Cwd filename), FsRead (Template filename),
                               FsWrite (Cwd filename) content]\<rparr>))
   \<and> (cwd w filename \<noteq> None \<longrightarrow>
      copyTemplate filename w =
        (Inr False,
         w\<lparr>trace := trace w @ [FsExists (Cwd filename),
                               LogWarn (filename @ '' already exists, skipping'')]\<rparr>))
   \<and> (\<forall>name. cwd w name \<noteq> None \<longrightarrow> cwd (snd (copyTemplate filename w)) name = cwd w name)"
proof (intro conjI allI impI)
  assume "cwd w filename = None \<and> templates w filename = Some content \<and> writable w filename"
  then show "copyTemplate filename w =
        (Inr True,
         w\<lparr>cwd := (cwd w)(filename \<mapsto> File content),
           trace := trace w @ [FsExists (Cwd filename), FsRead (Template filename),
                               FsWrite (Cwd filename) content]\<rparr>)"
    by (simp add: copyTemplate_def existsSync_def readFileSync_def writeFileSync_def emit_def)
next
  assume "cwd w filename = None \<and> templates w filename = None"
  then show "copyTemplate filename w =
        (Inl (ENOENT (Template filename)),
         w\<lparr>trace := trace w @ [FsExists (Cwd filename), FsRead (Template filename)]\<rparr>)"
    by (simp add: copyTemplate_def existsSync_def readFileSync_def emit_def)
next
  assume "cwd w filename = None \<and> templates w filename = Some content \<and> \<not> writable w filename"
  then show "copyTemplate filename w =
        (Inl (EACCES (Cwd filename)),
         w\<lparr>trace := trace w @ [FsExists (Cwd filename), FsRead (Template filename),
                               FsWrite (Cwd filename) content]\<rparr>)"
    by (simp add: copyTemplate_def existsSync_def readFileSync_def writeFileSync_def emit_def)
next
  assume "cwd w filename \<noteq> None"
  then show "copyTemplate filename w =
        (Inr False,
         w\<lparr>trace := trace w @ [FsExists (Cwd filename),
                               LogWarn (filename @ '' already exists, skipping'')]\<rparr>)"
    by (auto simp add: copyTemplate_def existsSync_def emit_def)
next
  fix name
  assume "cwd w name \<noteq> None"
  then show "cwd (snd (copyTemplate filename w)) name = cwd w name"
    by (auto simp add: copyTemplate_def existsSync_def readFileSync_def writeFileSync_def
        emit_def Let_def split: option.splits)
qed

theorem copyTemplate_creates_or_skips_witness:
  "copyTemplate ''eslint.config.js'' empty_project =
     (Inr True,
      empty_project
        \<lparr>cwd := [''eslint.config.js'' \<mapsto> File ''export default [];''],
         trace := [FsExists (Cwd ''eslint.config.js''), FsRead (Template ''eslint.config.js''),
                   FsWrite (Cwd ''eslint.config.js'') ''export default [];'']\<rparr>)
   \<and> copyTemplate ''eslint.config.js'' (empty_project\<lparr>templates := Map.empty\<rparr>) =
     (Inl (ENOENT (Template ''eslint.config.js'')),
      empty_project
        \<lparr>templates := Map.empty,
         trace := [FsExists (Cwd ''eslint.config.js''),
                   FsRead (Template ''eslint.config.js'')]\<rparr>)
   \<and> copyTemplate ''eslint.config.js'' (empty_project\<lparr>writable := (\<lambda>name. False)\<rparr>) =
     (Inl (EACCES (Cwd ''eslint.config.js'')),
      empty_project
        \<lparr>writable := (\<lambda>name. False),
         trace := [FsExists (Cwd ''eslint.config.js''), FsRead (Template ''eslint.config.js''),
                   FsWrite (Cwd ''eslint.config.js'') ''export default [];'']\<rparr>)
   \<and> copyTemplate ''eslint.config.js''
       (empty_project\<lparr>cwd := [''eslint.config.js'' \<mapsto> File ''mine'']\<rparr>) =
     (Inr False,
      empty_project
        \<lparr>cwd := [''eslint.config.js'' \<mapsto> File ''mine''],
         trace := [FsExists (Cwd ''eslint.config.js''),
                   LogWarn ''eslint.config.js already exists, skipping'']\<rparr>)"
  using copyTemplate_creates_or_skips
          [of empty_project "''eslint.config.js''" "''export default [];''"]
        copyTemplate_creates_or_skips
          [of "empty_project\<lparr>templates := Map.empty\<rparr>" "''eslint.config.js''"]
        copyTemplate_creates_or_skips
          [of "empty_project\<lparr>writable := (\<lambda>name. False)\<rparr>" "''eslint.config.js''"
              "''export default [];''"]
        copyTemplate_creates_or_skips
          [of "empty_project\<lparr>cwd := [''eslint.config.js'' \<mapsto> File ''mine'']\<rparr>"
              "''eslint.config.js''"]
  by (simp add: empty_project_def bundled_def)

text \<open>
  Claim C10. When the target exists, \<open>copyTemplate\<close> returns false without reading the
  bundled template: the only calls it makes are the existence check and the warning.
  Hence the result is the same whatever the bundled templates are, and a template that is
  missing or unreadable causes no error for a file whose target is already there.
\<close>

theorem copyTemplate_skips_without_reading:
  assumes "cwd w filename \<noteq> None"
  shows "copyTemplate filename (w\<lparr>templates := t\<rparr>) =
     (Inr False,
      w\<lparr>templates := t,
        trace := trace w @ [FsExists (Cwd filename),
                            LogWarn (filename @ '' already exists, skipping'')]\<rparr>)"
  using assms by (auto simp add: copyTemplate_def existsSync_def emit_def)

theorem copyTemplate_skips_without_reading_witness:
  "cwd (empty_project\<lparr>cwd := [''eslint.config.js'' \<mapsto> File ''mine'']\<rparr>) ''eslint.config.js'' \<noteq> None
   \<and> copyTemplate ''eslint.config.js''
       (empty_project\<lparr>cwd := [''eslint.config.js'' \<mapsto> File ''mine''], templates := Map.empty\<rparr>) =
     (Inr False,
      empty_project
        \<lparr>cwd := [''eslint.config.js'' \<mapsto> File ''mine''],
         templates := Map.empty,
         trace := [FsExists (Cwd ''eslint.config.js''),
                   LogWarn ''eslint.config.js already exists, skipping'']\<rparr>)"
  using copyTemplate_skips_without_reading
          [of "empty_project\<lparr>cwd := [''eslint.config.js'' \<mapsto> File ''mine'']\<rparr>"
              "''eslint.config.js''" Map.empty]
  by (simp add: empty_project_def)

section \<open>Manifest update: absent manifest\<close>

text \<open>
  Claim C7. When the working directory has no \<^verbatim>\<open>package.json\<close>, \<open>updatePackageJson\<close>
  returns normally for every combination of its two flags; it makes no write call, leaves
  the directory as it was, and its only output is the warning that nothing was found.
\<close>

theorem updatePackageJson_without_manifest:
  assumes "cwd w ''package.json'' = None"
  shows "updatePackageJson J addScripts addEngines w =
     (Inr (),
      w\<lparr>trace := trace w @ [FsExists (Cwd ''package.json''),
                            LogWarn ''No package.json found, skipping updates'']\<rparr>)"
  using assms by (simp add: updatePackageJson_def existsSync_def emit_def)

theorem updatePackageJson_without_manifest_witness:
  "cwd empty_project ''package.json'' = None
   \<and> updatePackageJson example_JSON True True empty_project =
     (Inr (),
      empty_project
        \<lparr>trace := [FsExists (Cwd ''package.json''),
                   LogWarn ''No package.json found, skipping updates'']\<rparr>)"
  using updatePackageJson_without_manifest [of empty_project example_JSON True True]
  by (simp add: empty_project_def)

section \<open>Manifest update: merging into the parsed object\<close>

subsection \<open>Properties of the object operations\<close>

lemma map_of_set_property: "map_of (set_property k v kvs) = (map_of kvs)(k \<mapsto> v)"
  by (induction kvs) (auto simp: fun_eq_iff)

lemma keys_set_property:
  "map fst (set_property k v kvs) =
     (if k \<in> set (map fst kvs) then map fst kvs else map fst kvs @ [k])"
  by (induction kvs) force+

lemma key_set_set_property: "fst ` set (set_property k v kvs) = insert k (fst ` set kvs)"
proof -
  have "set (map fst (set_property k v kvs)) = insert k (set (map fst kvs))"
    unfolding keys_set_property by auto
  then show ?thesis by simp
qed

lemma map_of_spread: "map_of (spread props obj) = map_of obj ++ map_of (rev props)"
  unfolding spread_def
proof (induction props arbitrary: obj)
  case Nil
  show ?case by simp
next
  case (Cons p props)
  obtain k v where p: "p = (k, v)" by (cases p)
  show ?case
    by (simp add: p Cons.IH map_of_set_property fun_eq_iff map_add_def split: option.splits)
qed

lemma map_of_rev_distinct: "distinct (map fst kvs) \<Longrightarrow> map_of (rev kvs) = map_of kvs"
  by (simp add: distinct_map map_of_inject_set)

lemma map_of_fixed:
  "map_of (map (\<lambda>(k, v). (k, JString v)) fixed) k = map_option JString (map_of fixed k)"
  by (induction fixed) auto

lemma merged_lookup:
  assumes "distinct (map fst fixed)"
  shows "\<exists>props. merged old fixed = JObject props \<and>
           (\<forall>k v. map_of fixed k = Some v \<longrightarrow> map_of props k = Some (JString v)) \<and>
           (\<forall>k. distinct (map fst (own_properties old)) \<longrightarrow> map_of fixed k = None \<longrightarrow>
                 map_of props k = map_of (own_properties old) k)"
proof -
  let ?c = "map (\<lambda>(k, v). (k, JString v)) fixed"
  have d: "distinct (map fst ?c)"
    using assms by (simp add: case_prod_unfold comp_def)
  show ?thesis
    unfolding merged_def
    by (auto simp: map_of_spread map_of_rev_distinct[OF d] map_of_rev_distinct
        map_of_fixed map_add_def split: option.splits)
qed


lemma merge_key_object:
  "merge_key flag key fixed (JObject kvs) =
     Inr (JObject (if flag then set_property key (merged (map_of kvs key) fixed) kvs else kvs))"
  by (simp add: merge_key_def)

lemma updatePackageJson_object:
  assumes "cwd w ''package.json'' = Some (File text)"
    and "parse J text = Some (JObject kvs)"
  shows "updatePackageJson J addScripts addEngines w =
     (let kvs1 = (if addScripts
                  then set_property ''scripts'' (merged (map_of kvs ''scripts'') SCRIPTS) kvs
                  else kvs);
          kvs2 = (if addEngines
                  then set_property ''engines'' (merged (map_of kvs1 ''engines'') ENGINES) kvs1
                  else kvs1);
          out = stringify J (JObject kvs2) @ [CHR 0x0A];
          w' = w\<lparr>trace := trace w @ [FsExists (Cwd ''package.json''),
                  FsRead (Cwd ''package.json''), FsWrite (Cwd ''package.json'') out]\<rparr>
      in if writable w ''package.json''
         then (Inr (), w'\<lparr>cwd := (cwd w)(''package.json'' \<mapsto> File out)\<rparr>)
         else (Inl (EACCES (Cwd ''package.json'')), w'))"
  using assms
  by (simp add: updatePackageJson_def existsSync_def readFileSync_def writeFileSync_def emit_def
      merge_key_object Let_def)

lemma distinct_SCRIPTS: "distinct (map fst SCRIPTS)"
  by (simp add: SCRIPTS_def)

lemma distinct_ENGINES: "distinct (map fst ENGINES)"
  by (simp add: ENGINES_def)

subsection \<open>What is kept\<close>

text \<open>
  Claim C4. For every manifest that parses to a JSON object and for all four combinations
  of the flags, what \<open>updatePackageJson\<close> writes back is the rendering of an object in
  which every top-level key other than \<open>scripts\<close> and \<open>engines\<close> has the value it had, no
  key of the manifest is missing, and \<open>scripts\<close> (\<open>engines\<close>) is untouched when its flag is
  off. When the flag is on, the new \<open>scripts\<close> (\<open>engines\<close>) value is an object that holds
  every fixed entry and, where the old value was an object, every old entry whose name is
  not among the fixed ones: a merge in which the fixed entries win, not a replacement. When
  the file cannot be written the call throws and the directory is as before.
\<close>

theorem updatePackageJson_frame:
  assumes "cwd w ''package.json'' = Some (File text)"
    and "parse J text = Some (JObject kvs)"
  shows "\<exists>kvs' out.
      out = stringify J (JObject kvs') @ [CHR 0x0A]
    \<and> updatePackageJson J addScripts addEngines w =
        (if writable w ''package.json''
         then (Inr (),
               w\<lparr>cwd := (cwd w)(''package.json'' \<mapsto> File out),
                 trace := trace w @ [FsExists (Cwd ''package.json''),
                   FsRead (Cwd ''package.json''), FsWrite (Cwd ''package.json'') out]\<rparr>)
         else (Inl (EACCES (Cwd ''package.json'')),
               w\<lparr>trace := trace w @ [FsExists (Cwd ''package.json''),
                   FsRead (Cwd ''package.json''), FsWrite (Cwd ''package.json'') out]\<rparr>))
    \<and> (\<forall>k. k \<noteq> ''scripts'' \<and> k \<noteq> ''engines'' \<longrightarrow> map_of kvs' k = map_of kvs k)
    \<and> set (map fst kvs) \<subseteq> set (map fst kvs')
    \<and> (\<not> addScripts \<longrightarrow> map_of kvs' ''scripts'' = map_of kvs ''scripts'')
    \<and> (\<not> addEngines \<longrightarrow> map_of kvs' ''engines'' = map_of kvs ''engines'')
    \<and> (addScripts \<longrightarrow>
         (\<exists>new. map_of kvs' ''scripts'' = Some (JObject new)
            \<and> (\<forall>k v. map_of SCRIPTS k = Some v \<longrightarrow> map_of new k = Some (JString v))
            \<and> (\<forall>old k. map_of kvs ''scripts'' = Some (JObject old) \<and> distinct (map fst old)
                      \<and> map_of SCRIPTS k = None \<longrightarrow> map_of new k = map_of old k)))
    \<and> (addEngines \<longrightarrow>
         (\<exists>new. map_of kvs' ''engines'' = Some (JObject new)
            \<and> (\<forall>k v. map_of ENGINES k = Some v \<longrightarrow> map_of new k = Some (JString v))
            \<and> (\<forall>old k. map_of kvs ''engines'' = Some (JObject old) \<and> distinct (map fst old)
                      \<and> map_of ENGINES k = None \<longrightarrow> map_of new k = map_of old k)))"
proof -
  define kvs1 where "kvs1 =
    (if addScripts then set_property ''scripts'' (merged (map_of kvs ''scripts'') SCRIPTS) kvs
     else kvs)"
  define kvs2 where "kvs2 =
    (if addEngines then set_property ''engines'' (merged (map_of kvs1 ''engines'') ENGINES) kvs1
     else kvs1)"
  have run: "updatePackageJson J addScripts addEngines w =
        (if writable w ''package.json''
         then (Inr (),
               w\<lparr>cwd := (cwd w)(''package.json'' \<mapsto> File (stringify J (JObject kvs2) @ [CHR 0x0A])),
                 trace := trace w @ [FsExists (Cwd ''package.json''),
                   FsRead (Cwd ''package.json''),
                   FsWrite (Cwd ''package.json'') (stringify J (JObject kvs2) @ [CHR 0x0A])]\<rparr>)
         else (Inl (EACCES (Cwd ''package.json'')),
               w\<lparr>trace := trace w @ [FsExists (Cwd ''package.json''),
                   FsRead (Cwd ''package.json''),
                   FsWrite (Cwd ''package.json'') (stringify J (JObject kvs2) @ [CHR 0x0A])]\<rparr>))"
    by (simp add: updatePackageJson_object [OF assms] kvs1_def kvs2_def Let_def)
  have engines1: "map_of kvs1 ''engines'' = map_of kvs ''engines''"
    by (simp add: kvs1_def map_of_set_property)
  have other: "map_of kvs2 k = map_of kvs k" if "k \<noteq> ''scripts'' \<and> k \<noteq> ''engines''" for k
    using that by (simp add: kvs1_def kvs2_def map_of_set_property)
  have keys: "set (map fst kvs) \<subseteq> set (map fst kvs2)"
    by (auto simp add: kvs1_def kvs2_def key_set_set_property)
  have scripts2: "map_of kvs2 ''scripts'' =
      (if addScripts then Some (merged (map_of kvs ''scripts'') SCRIPTS)
       else map_of kvs ''scripts'')"
    by (simp add: kvs1_def kvs2_def map_of_set_property)
  have engines2: "map_of kvs2 ''engines'' =
      (if addEngines then Some (merged (map_of kvs ''engines'') ENGINES)
       else map_of kvs ''engines'')"
    by (simp add: kvs2_def map_of_set_property engines1)
  have ms: "\<exists>new. map_of kvs2 ''scripts'' = Some (JObject new)
            \<and> (\<forall>k v. map_of SCRIPTS k = Some v \<longrightarrow> map_of new k = Some (JString v))
            \<and> (\<forall>old k. map_of kvs ''scripts'' = Some (JObject old) \<and> distinct (map fst old)
                      \<and> map_of SCRIPTS k = None \<longrightarrow> map_of new k = map_of old k)"
    if addScripts
  proof -
    from merged_lookup [OF distinct_SCRIPTS, of "map_of kvs ''scripts''"]
    obtain props where p: "merged (map_of kvs ''scripts'') SCRIPTS = JObject props"
      "\<forall>k v. map_of SCRIPTS k = Some v \<longrightarrow> map_of props k = Some (JString v)"
      "\<forall>k. distinct (map fst (own_properties (map_of kvs ''scripts''))) \<longrightarrow>
           map_of SCRIPTS k = None \<longrightarrow>
           map_of props k = map_of (own_properties (map_of kvs ''scripts'')) k"
      by blast
    have "map_of kvs2 ''scripts'' = Some (JObject props)"
      using that by (simp add: scripts2 p(1))
    moreover have "map_of props k = map_of old k"
      if "map_of kvs ''scripts'' = Some (JObject old) \<and> distinct (map fst old)
          \<and> map_of SCRIPTS k = None" for old k
      using p(3) that by simp
    ultimately show ?thesis using p(2) by blast
  qed
  have me: "\<exists>new. map_of kvs2 ''engines'' = Some (JObject new)
            \<and> (\<forall>k v. map_of ENGINES k = Some v \<longrightarrow> map_of new k = Some (JString v))
            \<and> (\<forall>old k. map_of kvs ''engines'' = Some (JObject old) \<and> distinct (map fst old)
                      \<and> map_of ENGINES k = None \<longrightarrow> map_of new k = map_of old k)"
    if addEngines
  proof -
    from merged_lookup [OF distinct_ENGINES, of "map_of kvs ''engines''"]
    obtain props where p: "merged (map_of kvs ''engines'') ENGINES = JObject props"
      "\<forall>k v. map_of ENGINES k = Some v \<longrightarrow> map_of props k = Some (JString v)"
      "\<forall>k. distinct (map fst (own_properties (map_of kvs ''engines''))) \<longrightarrow>
           map_of ENGINES k = None \<longrightarrow>
           map_of props k = map_of (own_properties (map_of kvs ''engines'')) k"
      by blast
    have "map_of kvs2 ''engines'' = Some (JObject props)"
      using that by (simp add: engines2 p(1))
    moreover have "map_of props k = map_of old k"
      if "map_of kvs ''engines'' = Some (JObject old) \<and> distinct (map fst old)
          \<and> map_of ENGINES k = None" for old k
      using p(3) that by simp
    ultimately show ?thesis using p(2) by blast
  qed
  show ?thesis
    apply (rule exI [of _ kvs2])
    apply (rule exI [of _ "stringify J (JObject kvs2) @ [CHR 0x0A]"])
    apply (intro conjI)
           apply (rule refl)
          apply (rule run)
    using other apply blast
        apply (rule keys)
       apply (simp add: scripts2)
      apply (simp add: engines2)
    using ms apply blast
    using me apply blast
    done
qed

theorem updatePackageJson_frame_witness:
  "cwd yarn_project ''package.json'' = Some (File manifest_text)
   \<and> parse example_JSON manifest_text = Some manifest_value
   \<and> fst (updatePackageJson example_JSON True True yarn_project) = Inr ()
   \<and> cwd (snd (updatePackageJson example_JSON True True yarn_project)) ''package.json'' =
       Some (File (text_with_both @ [CHR 0x0A]))"
proof -
  have h1: "cwd yarn_project ''package.json'' = Some (File manifest_text)"
    by (simp add: yarn_project_def)
  have h2: "parse example_JSON manifest_text = Some manifest_value"
    by (simp add: example_JSON_def)
  have wr: "writable yarn_project ''package.json''"
    by (simp add: yarn_project_def empty_project_def)
  from updatePackageJson_frame [OF h1 h2 [unfolded manifest_value_def], of True True]
  obtain out where "updatePackageJson example_JSON True True yarn_project =
        (if writable yarn_project ''package.json''
         then (Inr (),
               yarn_project\<lparr>cwd := (cwd yarn_project)(''package.json'' \<mapsto> File out),
                 trace := trace yarn_project @ [FsExists (Cwd ''package.json''),
                   FsRead (Cwd ''package.json''), FsWrite (Cwd ''package.json'') out]\<rparr>)
         else (Inl (EACCES (Cwd ''package.json'')),
               yarn_project\<lparr>trace := trace yarn_project @ [FsExists (Cwd ''package.json''),
                   FsRead (Cwd ''package.json''), FsWrite (Cwd ''package.json'') out]\<rparr>))"
    by blast
  then have ok: "fst (updatePackageJson example_JSON True True yarn_project) = Inr ()"
    by (simp add: wr)
  have out: "cwd (snd (updatePackageJson example_JSON True True yarn_project)) ''package.json'' =
       Some (File (text_with_both @ [CHR 0x0A]))"
    by code_simp
  show ?thesis
    using h1 h2 ok out by blast
qed

subsection \<open>Adding the scripts\<close>



section \<open>Manifest update: invalid JSON\<close>

text \<open>
  Claim C6. When the manifest's text is not valid JSON, \<open>updatePackageJson\<close> throws the
  parse error after the existence check and the read and before any write call, so the
  directory, the manifest included, is unchanged. The orchestrator's handler stops the
  spinner and logs an error, and the run goes on: from a state reached after the files were
  written, the outcome of the remaining steps is that of the installation step and the
  closing message, as if the update had not been asked for.
\<close>

theorem invalid_manifest_reported:
  assumes "cwd w ''package.json'' = Some (File text)" and "parse J text = None"
  shows "updatePackageJson J addScripts addEngines w =
     (Inl SyntaxError,
      w\<lparr>trace := trace w @ [FsExists (Cwd ''package.json''), FsRead (Cwd ''package.json'')]\<rparr>)
   \<and> (addScripts \<or> addEngines \<longrightarrow>
        update_manifest J addScripts addEngines w =
          w\<lparr>trace := trace w @
              [SpinnerStart ''Updating package.json'',
               FsExists (Cwd ''package.json''), FsRead (Cwd ''package.json''),
               SpinnerStop ''Failed to update package.json'',
               LogError ''Could not update package.json automatically'']\<rparr>)
   \<and> (\<forall>selected w0. addScripts \<or> addEngines \<longrightarrow> write_files selected w0 = (Inr (), w) \<longrightarrow>
        run_steps J pm selected addScripts addEngines install w0 =
          (case install_dependencies pm install
                  (w\<lparr>trace := trace w @
                      [SpinnerStart ''Updating package.json'',
                       FsExists (Cwd ''package.json''), FsRead (Cwd ''package.json''),
                       SpinnerStop ''Failed to update package.json'',
                       LogError ''Could not update package.json automatically'']\<rparr>) of
             (Some code, w2) \<Rightarrow> (Exited code, w2)
           | (None, w2) \<Rightarrow> (Resolved, finish pm install addScripts w2)))"
proof -
  have u: "updatePackageJson J addScripts addEngines w' =
     (Inl SyntaxError,
      w'\<lparr>trace := trace w' @ [FsExists (Cwd ''package.json''), FsRead (Cwd ''package.json'')]\<rparr>)"
    if "cwd w' = cwd w" for w'
    using assms that
    by (simp add: updatePackageJson_def existsSync_def readFileSync_def emit_def)
  have m: "update_manifest J addScripts addEngines w =
          w\<lparr>trace := trace w @
              [SpinnerStart ''Updating package.json'',
               FsExists (Cwd ''package.json''), FsRead (Cwd ''package.json''),
               SpinnerStop ''Failed to update package.json'',
               LogError ''Could not update package.json automatically'']\<rparr>"
    if "addScripts \<or> addEngines"
    using that by (auto simp add: update_manifest_def u emit_def)
  show ?thesis
    using u [of w] m by (simp add: run_steps_def)
qed


theorem invalid_manifest_reported_witness:
  "(cwd broken_project ''package.json'' = Some (File ''{ name: '')
    \<and> parse example_JSON ''{ name: '' = None
    \<and> updatePackageJson example_JSON True True broken_project =
        (Inl SyntaxError,
         broken_project\<lparr>trace := [FsExists (Cwd ''package.json''), FsRead (Cwd ''package.json'')]\<rparr>)
    \<and> update_manifest example_JSON True True broken_project =
        broken_project
          \<lparr>trace := [SpinnerStart ''Updating package.json'',
                     FsExists (Cwd ''package.json''), FsRead (Cwd ''package.json''),
                     SpinnerStop ''Failed to update package.json'',
                     LogError ''Could not update package.json automatically'']\<rparr>)
   \<and> (fst (program example_JSON (all_confirmed\<lparr>installDeps := Answer False\<rparr>) broken_project) = 0
    \<and> cwd (snd (program example_JSON (all_confirmed\<lparr>installDeps := Answer False\<rparr>) broken_project))
         ''package.json'' = Some (File ''{ name: '')
    \<and> trace (snd (program example_JSON (all_confirmed\<lparr>installDeps := Answer False\<rparr>) broken_project)) =
        [ConsoleClear, Intro ''Stern ESLint and Prettier Configuration'',
         FsExists (Cwd ''bun.lockb''), FsExists (Cwd ''pnpm-lock.yaml''),
         FsExists (Cwd ''yarn.lock''), FsExists (Cwd ''package-lock.json''),
         ExecSync ''bun --version'', LogInfo ''Detected package manager: npm'',
         SpinnerStart ''Creating configuration files'',
         FsExists (Cwd ''eslint.config.js''),
         FsRead (Template ''eslint.config.js''),
         FsWrite (Cwd ''eslint.config.js'') ''export default [];'',
         FsExists (Cwd ''prettier.config.js''),
         FsRead (Template ''prettier.config.js''),
         FsWrite (Cwd ''prettier.config.js'') ''export default {};'',
         FsExists (Cwd ''.prettierignore''), FsRead (Template ''.prettierignore''),
         FsWrite (Cwd ''.prettierignore'') ''node_modules'',
         SpinnerStop ''Configuration files created'',
         SpinnerStart ''Updating package.json'', FsExists (Cwd ''package.json''),
         FsRead (Cwd ''package.json''),
         SpinnerStop ''Failed to update package.json'',
         LogError ''Could not update package.json automatically'',
         Outro ''Setup complete''])"
proof (rule conjI)
  show "cwd broken_project ''package.json'' = Some (File ''{ name: '')
    \<and> parse example_JSON ''{ name: '' = None
    \<and> updatePackageJson example_JSON True True broken_project =
        (Inl SyntaxError,
         broken_project\<lparr>trace := [FsExists (Cwd ''package.json''), FsRead (Cwd ''package.json'')]\<rparr>)
    \<and> update_manifest example_JSON True True broken_project =
        broken_project
          \<lparr>trace := [SpinnerStart ''Updating package.json'',
                     FsExists (Cwd ''package.json''), FsRead (Cwd ''package.json''),
                     SpinnerStop ''Failed to update package.json'',
                     LogError ''Could not update package.json automatically'']\<rparr>"
    using invalid_manifest_reported
            [of broken_project "''{ name: ''" example_JSON True True Npm False]
    by (simp add: broken_project_def empty_project_def example_JSON_def manifest_text_def)
  show "fst (program example_JSON (all_confirmed\<lparr>installDeps := Answer False\<rparr>) broken_project) = 0
    \<and> cwd (snd (program example_JSON (all_confirmed\<lparr>installDeps := Answer False\<rparr>) broken_project))
         ''package.json'' = Some (File ''{ name: '')
    \<and> trace (snd (program example_JSON (all_confirmed\<lparr>installDeps := Answer False\<rparr>) broken_project)) =
        [ConsoleClear, Intro ''Stern ESLint and Prettier Configuration'',
         FsExists (Cwd ''bun.lockb''), FsExists (Cwd ''pnpm-lock.yaml''),
         FsExists (Cwd ''yarn.lock''), FsExists (Cwd ''package-lock.json''),
         ExecSync ''bun --version'', LogInfo ''Detected package manager: npm'',
         SpinnerStart ''Creating configuration files'',
         FsExists (Cwd ''eslint.config.js''),
         FsRead (Template ''eslint.config.js''),
         FsWrite (Cwd ''eslint.config.js'') ''export default [];'',
         FsExists (Cwd ''prettier.config.js''),
         FsRead (Template ''prettier.config.js''),
         FsWrite (Cwd ''prettier.config.js'') ''export default {};'',
         FsExists (Cwd ''.prettierignore''), FsRead (Template ''.prettierignore''),
         FsWrite (Cwd ''.prettierignore'') ''node_modules'',
         SpinnerStop ''Configuration files created'',
         SpinnerStart ''Updating package.json'', FsExists (Cwd ''package.json''),
         FsRead (Cwd ''package.json''),
         SpinnerStop ''Failed to update package.json'',
         LogError ''Could not update package.json automatically'',
         Outro ''Setup complete'']"
    by code_simp
qed

section \<open>The orchestrator: which failures end the run\<close>

subsection \<open>Properties of the steps\<close>

lemma main_cancelled:
  assumes "files answers = Cancelled \<or> updateScripts answers = Cancelled
           \<or> updateEngines answers = Cancelled \<or> installDeps answers = Cancelled"
  shows "main J answers w =
           (Exited 0, emit (CancelMsg ''Operation cancelled'') (snd (greet w)))"
  using assms by (auto simp add: main_def Let_def split: prod.splits answer.splits)

lemma main_answered:
  assumes "files answers = Answer selected" and "updateScripts answers = Answer addScripts"
    and "updateEngines answers = Answer addEngines" and "installDeps answers = Answer install"
  shows "main J answers w =
           run_steps J (fst (greet w)) selected addScripts addEngines install (snd (greet w))"
  using assms by (simp add: main_def Let_def split: prod.splits)

lemma install_dependencies_cases:
  "install_dependencies pm selected w =
     (if selected \<and> \<not> fst (exec w (getInstallCommand pm) (cwd w))
      then (Some 1,
            w\<lparr>cwd := snd (exec w (getInstallCommand pm) (cwd w)),
              trace := trace w @
                [SpinnerStart ''Installing dependencies'',
                 ExecSync (getInstallCommand pm),
                 SpinnerStop ''Failed to install dependencies'',
                 LogError ''Failed to install dependencies'',
                 LogInfo (''You can install them manually with:'' @ [CHR 0x0A] @ ''  ''
                          @ getInstallCommand pm)]\<rparr>)
      else if selected
      then (None,
            w\<lparr>cwd := snd (exec w (getInstallCommand pm) (cwd w)),
              trace := trace w @
                [SpinnerStart ''Installing dependencies'',
                 ExecSync (getInstallCommand pm),
                 SpinnerStop ''Dependencies installed'']\<rparr>)
      else (None, w))"
  by (simp add: install_dependencies_def execSync_def emit_def Let_def split: prod.splits)

lemma write_files_first:
  assumes "''eslint'' \<in> set selected"
    and "copyTemplate ''eslint.config.js''
           (emit (SpinnerStart ''Creating configuration files'') w) = (Inl e, w')"
  shows "write_files selected w = (Inl e, w')"
  using assms by (simp add: write_files_def copy_if_def)

lemma write_files_second:
  assumes "copy_if (''eslint'' \<in> set selected) ''eslint.config.js''
           (emit (SpinnerStart ''Creating configuration files'') w) = (Inr (), w1)"
    and "''prettier'' \<in> set selected"
    and "copyTemplate ''prettier.config.js'' w1 = (Inl e, w')"
  shows "write_files selected w = (Inl e, w')"
  using assms by (simp add: write_files_def copy_if_def)

lemma write_files_third:
  assumes "copy_if (''eslint'' \<in> set selected) ''eslint.config.js''
           (emit (SpinnerStart ''Creating configuration files'') w) = (Inr (), w1)"
    and "copy_if (''prettier'' \<in> set selected) ''prettier.config.js'' w1 = (Inr (), w2)"
    and "''prettierignore'' \<in> set selected"
    and "copyTemplate ''.prettierignore'' w2 = (Inl e, w')"
  shows "write_files selected w = (Inl e, w')"
  using assms by (simp add: write_files_def copy_if_def)

lemma copyTemplate_fails_iff:
  "(\<exists>e. fst (copyTemplate filename w) = Inl e) \<longleftrightarrow>
     cwd w filename = None \<and> (templates w filename = None \<or> \<not> writable w filename)"
  by (auto simp add: copyTemplate_def existsSync_def readFileSync_def writeFileSync_def
        emit_def Let_def split: option.splits)

lemma run_steps_rejected:
  "write_files selected w = (Inl e, w') \<Longrightarrow>
   run_steps J pm selected addScripts addEngines install w = (Rejected e, w')"
  by (simp add: run_steps_def)

lemma program_rejected:
  "main J answers w = (Rejected e, w') \<Longrightarrow>
   program J answers w =
     (1, w'\<lparr>trace := trace w' @ [LogError ''An error occurred'', ConsoleError e]\<rparr>)"
  by (simp add: program_def emit_def)

lemma run_steps_written:
  assumes "write_files selected w = (Inr (), w')"
  shows "run_steps J pm selected addScripts addEngines install w =
     (let w2 = update_manifest J addScripts addEngines w'; cmd = getInstallCommand pm in
      if install \<and> \<not> fst (exec w2 cmd (cwd w2))
      then (Exited 1,
            w2\<lparr>cwd := snd (exec w2 cmd (cwd w2)),
               trace := trace w2 @
                 [SpinnerStart ''Installing dependencies'',
                  ExecSync cmd,
                  SpinnerStop ''Failed to install dependencies'',
                  LogError ''Failed to install dependencies'',
                  LogInfo (''You can install them manually with:'' @ [CHR 0x0A] @ ''  '' @ cmd)]\<rparr>)
      else (Resolved,
            finish pm install addScripts
              (snd (install_dependencies pm install w2))))"
  using assms by (simp add: run_steps_def install_dependencies_cases Let_def)

subsection \<open>A failing file copy\<close>

text \<open>
  Claim C8 says that a failing file copy is caught by the orchestrator, reported as a
  warning for that file, and does not stop the remaining copies. The three calls of
  \<open>copyTemplate\<close> in \<open>main\<close> stand outside any \<^verbatim>\<open>try\<close>. In a distribution that lacks
  the ESLint template, with all three files selected and the other two templates present,
  the run ends with status 1 right after the failed read: no warning is logged, the
  Prettier files are not created, and the only report is the top-level handler's.
\<close>

theorem copy_failure_not_caught:
  "fst (program example_JSON all_confirmed incomplete_package) = 1
   \<and> templates incomplete_package ''prettier.config.js'' = Some ''export default {};''
   \<and> cwd (snd (program example_JSON all_confirmed incomplete_package)) ''prettier.config.js'' = None
   \<and> trace (snd (program example_JSON all_confirmed incomplete_package)) =
       [ConsoleClear, Intro ''Stern ESLint and Prettier Configuration'',
        FsExists (Cwd ''bun.lockb''), FsExists (Cwd ''pnpm-lock.yaml''),
        FsExists (Cwd ''yarn.lock''), FsExists (Cwd ''package-lock.json''),
        ExecSync ''bun --version'', LogInfo ''Detected package manager: npm'',
        SpinnerStart ''Creating configuration files'',
        FsExists (Cwd ''eslint.config.js''),
        FsRead (Template ''eslint.config.js''),
        LogError ''An error occurred'',
        ConsoleError (ENOENT (Template ''eslint.config.js''))]"
  by code_simp

text \<open>
  Claim C8, as the program has it. When all four prompts are answered and the copy of a
  selected file throws (the earlier selected copies having returned), the error is not
  caught in the file-writing step: it rejects \<open>main\<close>. The process ends with status 1 in
  the state the failing copy left, to which only the top-level handler's generic message
  and the error's message are added: no later copy, no manifest update and no
  installation takes place.
\<close>

theorem copy_failure_ends_run:
  assumes "files answers = Answer selected" and "updateScripts answers = Answer addScripts"
    and "updateEngines answers = Answer addEngines" and "installDeps answers = Answer install"
  shows "(''eslint'' \<in> set selected
          \<and> copyTemplate ''eslint.config.js''
               (emit (SpinnerStart ''Creating configuration files'') (snd (greet w))) = (Inl e, w')
          \<longrightarrow> program J answers w =
                (1, w'\<lparr>trace := trace w' @ [LogError ''An error occurred'', ConsoleError e]\<rparr>))
       \<and> (copy_if (''eslint'' \<in> set selected) ''eslint.config.js''
               (emit (SpinnerStart ''Creating configuration files'') (snd (greet w))) = (Inr (), w1)
          \<and> ''prettier'' \<in> set selected
          \<and> copyTemplate ''prettier.config.js'' w1 = (Inl e, w')
          \<longrightarrow> program J answers w =
                (1, w'\<lparr>trace := trace w' @ [LogError ''An error occurred'', ConsoleError e]\<rparr>))
       \<and> (copy_if (''eslint'' \<in> set selected) ''eslint.config.js''
               (emit (SpinnerStart ''Creating configuration files'') (snd (greet w))) = (Inr (), w1)
          \<and> copy_if (''prettier'' \<in> set selected) ''prettier.config.js'' w1 = (Inr (), w2)
          \<and> ''prettierignore'' \<in> set selected
          \<and> copyTemplate ''.prettierignore'' w2 = (Inl e, w')
          \<longrightarrow> program J answers w =
                (1, w'\<lparr>trace := trace w' @ [LogError ''An error occurred'', ConsoleError e]\<rparr>))"
proof -
  have rejected: "program J answers w =
      (1, w'\<lparr>trace := trace w' @ [LogError ''An error occurred'', ConsoleError e]\<rparr>)"
    if "write_files selected (snd (greet w)) = (Inl e, w')"
    using that
    by (simp add: program_rejected main_answered [OF assms] run_steps_rejected)
  show ?thesis
    using rejected write_files_first write_files_second write_files_third by blast
qed

theorem copy_failure_ends_run_witness:
  "files all_confirmed = Answer [''eslint'', ''prettier'', ''prettierignore'']
   \<and> updateScripts all_confirmed = Answer True
   \<and> updateEngines all_confirmed = Answer True
   \<and> installDeps all_confirmed = Answer True
   \<and> ''eslint'' \<in> set [''eslint'', ''prettier'', ''prettierignore'']
   \<and> fst (copyTemplate ''eslint.config.js''
         (emit (SpinnerStart ''Creating configuration files'') (snd (greet incomplete_package)))) =
       Inl (ENOENT (Template ''eslint.config.js''))
   \<and> fst (program example_JSON all_confirmed incomplete_package) = 1"
proof -
  have a: "files all_confirmed = Answer [''eslint'', ''prettier'', ''prettierignore'']"
    "updateScripts all_confirmed = Answer True"
    "updateEngines all_confirmed = Answer True"
    "installDeps all_confirmed = Answer True"
    by (simp_all add: all_confirmed_def)
  obtain r w' where c: "copyTemplate ''eslint.config.js''
         (emit (SpinnerStart ''Creating configuration files'') (snd (greet incomplete_package))) =
       (r, w')"
    by (cases "copyTemplate ''eslint.config.js''
         (emit (SpinnerStart ''Creating configuration files'') (snd (greet incomplete_package)))")
  have f: "fst (copyTemplate ''eslint.config.js''
         (emit (SpinnerStart ''Creating configuration files'') (snd (greet incomplete_package)))) =
       Inl (ENOENT (Template ''eslint.config.js''))"
    by code_simp
  then have r: "r = Inl (ENOENT (Template ''eslint.config.js''))"
    by (simp add: c)
  from copy_failure_ends_run [OF a, of incomplete_package "ENOENT (Template ''eslint.config.js'')"
      w' example_JSON] c r
  have "fst (program example_JSON all_confirmed incomplete_package) = 1"
    by simp
  then show ?thesis
    using a f by simp
qed

subsection \<open>Exit status\<close>

text \<open>
  Claim C9 says that installation failure is the only step whose failure terminates the
  run. With installation declined, in a project directory where nothing can be written, the
  first copy throws and the run ends there with status 1: the manifest update is never
  started and the closing message never printed.
\<close>

theorem copy_failure_without_installation:
  "installDeps (all_confirmed\<lparr>installDeps := Answer False\<rparr>) = Answer False
   \<and> fst (program example_JSON (all_confirmed\<lparr>installDeps := Answer False\<rparr>) readonly_project) = 1
   \<and> trace (snd (program example_JSON (all_confirmed\<lparr>installDeps := Answer False\<rparr>)
                   readonly_project)) =
       [ConsoleClear, Intro ''Stern ESLint and Prettier Configuration'',
        FsExists (Cwd ''bun.lockb''), FsExists (Cwd ''pnpm-lock.yaml''),
        FsExists (Cwd ''yarn.lock''), FsExists (Cwd ''package-lock.json''),
        ExecSync ''bun --version'', LogInfo ''Detected package manager: npm'',
        SpinnerStart ''Creating configuration files'',
        FsExists (Cwd ''eslint.config.js''),
        FsRead (Template ''eslint.config.js''),
        FsWrite (Cwd ''eslint.config.js'') ''export default [];'',
        LogError ''An error occurred'',
        ConsoleError (EACCES (Cwd ''eslint.config.js''))]"
  by code_simp

text \<open>
  Claim C9, as the program has it. The exit status is 0 when a prompt is cancelled (any of
  the four; nothing but the cancellation message follows the greeting). When all four
  prompts are answered: if a file copy throws, the status is 1 after the generic message
  of the top-level handler; otherwise, if installation was selected and its process fails,
  the status is 1 after the failure report and the hint with the manual install command;
  otherwise the run completes with status 0, whether or not the manifest update failed.
  So two steps end the run when they fail, the file copies and the installation, and the
  status is always 0 or 1.
\<close>

theorem exit_status:
  "(files answers = Cancelled \<or> updateScripts answers = Cancelled
      \<or> updateEngines answers = Cancelled \<or> installDeps answers = Cancelled \<longrightarrow>
      program J answers w =
        (0, emit (CancelMsg ''Operation cancelled'') (snd (greet w))))
   \<and> (files answers = Answer selected \<and> updateScripts answers = Answer addScripts
      \<and> updateEngines answers = Answer addEngines \<and> installDeps answers = Answer install \<longrightarrow>
        (\<forall>e w'. write_files selected (snd (greet w)) = (Inl e, w') \<longrightarrow>
           program J answers w =
             (1, w'\<lparr>trace := trace w' @ [LogError ''An error occurred'', ConsoleError e]\<rparr>))
      \<and> (\<forall>w'. write_files selected (snd (greet w)) = (Inr (), w') \<longrightarrow>
           (let w2 = update_manifest J addScripts addEngines w';
                cmd = getInstallCommand (fst (greet w)) in
            if install \<and> \<not> fst (exec w2 cmd (cwd w2))
            then program J answers w =
                   (1,
                    w2\<lparr>cwd := snd (exec w2 cmd (cwd w2)),
                       trace := trace w2 @
                         [SpinnerStart ''Installing dependencies'',
                          ExecSync cmd,
                          SpinnerStop ''Failed to install dependencies'',
                          LogError ''Failed to install dependencies'',
                          LogInfo (''You can install them manually with:'' @ [CHR 0x0A]
                                   @ ''  '' @ cmd)]\<rparr>)
            else program J answers w =
                   (0, finish (fst (greet w)) install addScripts
                         (snd (install_dependencies (fst (greet w)) install w2))))))
   \<and> fst (program J answers w) \<in> {0, 1}"
proof (intro conjI impI allI)
  assume "files answers = Cancelled \<or> updateScripts answers = Cancelled
      \<or> updateEngines answers = Cancelled \<or> installDeps answers = Cancelled"
  then show "program J answers w =
        (0, emit (CancelMsg ''Operation cancelled'') (snd (greet w)))"
    by (simp add: program_def main_cancelled)
next
  fix e w'
  assume a: "files answers = Answer selected \<and> updateScripts answers = Answer addScripts
      \<and> updateEngines answers = Answer addEngines \<and> installDeps answers = Answer install"
    and f: "write_files selected (snd (greet w)) = (Inl e, w')"
  from a have "main J answers w =
      run_steps J (fst (greet w)) selected addScripts addEngines install (snd (greet w))"
    by (simp add: main_answered)
  with f show "program J answers w =
             (1, w'\<lparr>trace := trace w' @ [LogError ''An error occurred'', ConsoleError e]\<rparr>)"
    by (simp add: program_rejected run_steps_rejected)
next
  fix w'
  assume a: "files answers = Answer selected \<and> updateScripts answers = Answer addScripts
      \<and> updateEngines answers = Answer addEngines \<and> installDeps answers = Answer install"
    and f: "write_files selected (snd (greet w)) = (Inr (), w')"
  from a have "main J answers w =
      run_steps J (fst (greet w)) selected addScripts addEngines install (snd (greet w))"
    by (simp add: main_answered)
  then show "let w2 = update_manifest J addScripts addEngines w';
                cmd = getInstallCommand (fst (greet w)) in
            if install \<and> \<not> fst (exec w2 cmd (cwd w2))
            then program J answers w =
                   (1,
                    w2\<lparr>cwd := snd (exec w2 cmd (cwd w2)),
                       trace := trace w2 @
                         [SpinnerStart ''Installing dependencies'',
                          ExecSync cmd,
                          SpinnerStop ''Failed to install dependencies'',
                          LogError ''Failed to install dependencies'',
                          LogInfo (''You can install them manually with:'' @ [CHR 0x0A]
                                   @ ''  '' @ cmd)]\<rparr>)
            else program J answers w =
                   (0, finish (fst (greet w)) install addScripts
                         (snd (install_dependencies (fst (greet w)) install w2)))"
    by (simp add: program_def run_steps_written [OF f] Let_def)
next
  show "fst (program J answers w) \<in> {0, 1}"
    by (auto simp add: program_def main_def run_steps_def install_dependencies_def Let_def
        split: prod.splits answer.splits sum.splits option.splits outcome.splits if_splits)
qed

theorem exit_status_witness:
  "(updateEngines (all_confirmed\<lparr>updateEngines := Cancelled\<rparr>) = Cancelled
    \<and> fst (program example_JSON (all_confirmed\<lparr>updateEngines := Cancelled\<rparr>) yarn_project) = 0)
   \<and> (files all_confirmed = Answer [''eslint'', ''prettier'', ''prettierignore'']
    \<and> updateScripts all_confirmed = Answer True
    \<and> updateEngines all_confirmed = Answer True
    \<and> installDeps all_confirmed = Answer True
    \<and> fst (write_files [''eslint'', ''prettier'', ''prettierignore''] (snd (greet empty_project))) =
        Inr ()
    \<and> fst (program example_JSON all_confirmed empty_project) = 1
    \<and> last (trace (snd (program example_JSON all_confirmed empty_project))) =
        LogInfo (''You can install them manually with:'' @ [CHR 0x0A] @ ''  ''
                 @ getInstallCommand Npm))
   \<and> fst (program example_JSON all_confirmed yarn_project) = 0"
proof (intro conjI)
  show c: "updateEngines (all_confirmed\<lparr>updateEngines := Cancelled\<rparr>) = Cancelled"
    by simp
  from exit_status [where answers = "all_confirmed\<lparr>updateEngines := Cancelled\<rparr>"
      and J = example_JSON and w = yarn_project] c
  show "fst (program example_JSON (all_confirmed\<lparr>updateEngines := Cancelled\<rparr>) yarn_project) = 0"
    by simp
next
  let ?sel = "[''eslint'', ''prettier'', ''prettierignore'']"
  let ?w' = "snd (write_files ?sel (snd (greet empty_project)))"
  let ?w2 = "update_manifest example_JSON True True ?w'"
  show a1: "files all_confirmed = Answer ?sel"
    and a2: "updateScripts all_confirmed = Answer True"
    and a3: "updateEngines all_confirmed = Answer True"
    and a4: "installDeps all_confirmed = Answer True"
    by (simp_all add: all_confirmed_def)
  show f: "fst (write_files ?sel (snd (greet empty_project))) = Inr ()"
    by code_simp
  then have wf: "write_files ?sel (snd (greet empty_project)) = (Inr (), ?w')"
    by (simp add: prod_eq_iff)
  have fail: "\<not> fst (exec ?w2 (getInstallCommand (fst (greet empty_project))) (cwd ?w2))"
    by code_simp
  from exit_status [where answers = all_confirmed and selected = ?sel and addScripts = True
      and addEngines = True and install = True and J = example_JSON and w = empty_project]
    a1 a2 a3 a4
  have "\<forall>w'. write_files ?sel (snd (greet empty_project)) = (Inr (), w') \<longrightarrow>
           (let w2 = update_manifest example_JSON True True w';
                cmd = getInstallCommand (fst (greet empty_project)) in
            if True \<and> \<not> fst (exec w2 cmd (cwd w2))
            then program example_JSON all_confirmed empty_project =
                   (1,
                    w2\<lparr>cwd := snd (exec w2 cmd (cwd w2)),
                       trace := trace w2 @
                         [SpinnerStart ''Installing dependencies'',
                          ExecSync cmd,
                          SpinnerStop ''Failed to install dependencies'',
                          LogError ''Failed to install dependencies'',
                          LogInfo (''You can install them manually with:'' @ [CHR 0x0A]
                                   @ ''  '' @ cmd)]\<rparr>)
            else program example_JSON all_confirmed empty_project =
                   (0, finish (fst (greet empty_project)) True True
                         (snd (install_dependencies (fst (greet empty_project)) True w2))))"
    by blast
  from this [rule_format, OF wf] fail
  have p: "program example_JSON all_confirmed empty_project =
                   (1,
                    ?w2\<lparr>cwd := snd (exec ?w2 (getInstallCommand (fst (greet empty_project))) (cwd ?w2)),
                       trace := trace ?w2 @
                         [SpinnerStart ''Installing dependencies'',
                          ExecSync (getInstallCommand (fst (greet empty_project))),
                          SpinnerStop ''Failed to install dependencies'',
                          LogError ''Failed to install dependencies'',
                          LogInfo (''You can install them manually with:'' @ [CHR 0x0A]
                                   @ ''  '' @ getInstallCommand (fst (greet empty_project)))]\<rparr>)"
    by (simp add: Let_def)
  have npm: "fst (greet empty_project) = Npm"
    by code_simp
  show "fst (program example_JSON all_confirmed empty_project) = 1"
    by (simp add: p)
  show "last (trace (snd (program example_JSON all_confirmed empty_project))) =
        LogInfo (''You can install them manually with:'' @ [CHR 0x0A] @ ''  ''
                 @ getInstallCommand Npm)"
    by (simp add: p npm)
next
  show "fst (program example_JSON all_confirmed yarn_project) = 0"
    by code_simp
qed

end
